theory Spec2Isabelle
  imports Main
begin

section \<open>Rendered trees\<close>

text \<open>
  A component of the application returns a JSX tree. The tree is modelled as data:
  a host element (\<open>div\<close>, \<open>iframe\<close>, \<open>button\<close>, ...) with its props and children, an
  element of a component that is referred to by its identifier (\<open><Sidebar />\<close>), or a
  text node. A prop value is a string, a boolean, a style object, an event handler, an
  array or object literal, or the value of an identifier whose binding lies outside the
  repository's files (\<open>Opaque\<close>).

  An event handler of the source is an arrow function whose body is a sequence of calls.
  The only calls that occur are the setter of the component's \<open>useState\<close> cell and
  \<open>window.open\<close>; a handler is the list of its statements.
\<close>

datatype stmt =
    SetState bool
  | WindowOpen string string string

type_synonym handler = "stmt list"

datatype prop_value =
    Str string
  | Flag bool
  | Css "(string \<times> string) list"
  | Handler handler
  | Opaque string
  | Arr "prop_value list"
  | Obj "(string \<times> prop_value) list"

datatype vnode =
    Tag string "(string \<times> prop_value) list" "vnode list"
  | Component string "(string \<times> prop_value) list" "vnode list"
  | Text string

text \<open>
  A function component with one \<open>useState\<close> cell: the argument of \<open>useState\<close> and the
  tree it returns for the current value of the cell.
\<close>

record component =
  initialState :: bool
  view :: "bool \<Rightarrow> vnode"

text \<open>
  What a handler can touch: the \<open>useState\<close> cell of the mounted page and the browsing
  contexts opened through \<open>window.open\<close> (URL, target, features), oldest first. The
  record is extensible, so a statement about a handler covers any further state too.
\<close>

record world =
  hook :: bool
  opened :: "(string \<times> string \<times> string) list"

fun exec :: "stmt \<Rightarrow> 'a world_scheme \<Rightarrow> 'a world_scheme" where
  "exec (SetState b) w = w\<lparr>hook := b\<rparr>"
| "exec (WindowOpen url target features) w = w\<lparr>opened := opened w @ [(url, target, features)]\<rparr>"

definition run :: "handler \<Rightarrow> 'a world_scheme \<Rightarrow> 'a world_scheme" where
  "run h w = fold exec h w"

subsection \<open>Reading a tree\<close>

fun count_tag :: "string \<Rightarrow> vnode \<Rightarrow> nat" where
  "count_tag t (Tag n ps cs) = (if n = t then 1 else 0) + sum_list (map (count_tag t) cs)"
| "count_tag t (Component n ps cs) = sum_list (map (count_tag t) cs)"
| "count_tag t (Text s) = 0"

text \<open>The values of prop \<open>k\<close> on the host elements named \<open>t\<close>, in document order.\<close>

fun props_at :: "string \<Rightarrow> string \<Rightarrow> vnode \<Rightarrow> prop_value list" where
  "props_at t k (Tag n ps cs) =
     (if n = t then (case map_of ps k of None \<Rightarrow> [] | Some v \<Rightarrow> [v]) else [])
     @ concat (map (props_at t k) cs)"
| "props_at t k (Component n ps cs) = concat (map (props_at t k) cs)"
| "props_at t k (Text s) = []"

fun text_of :: "vnode \<Rightarrow> string" where
  "text_of (Tag n ps cs) = concat (map text_of cs)"
| "text_of (Component n ps cs) = concat (map text_of cs)"
| "text_of (Text s) = s"

text \<open>The text content of each host element named \<open>t\<close>, in document order.\<close>

fun texts_at :: "string \<Rightarrow> vnode \<Rightarrow> string list" where
  "texts_at t (Tag n ps cs) =
     (if n = t then [concat (map text_of cs)] else []) @ concat (map (texts_at t) cs)"
| "texts_at t (Component n ps cs) = concat (map (texts_at t) cs)"
| "texts_at t (Text s) = []"

fun handler_of :: "prop_value \<Rightarrow> handler option" where
  "handler_of (Handler h) = Some h"
| "handler_of p = None"

definition handlers_at :: "string \<Rightarrow> string \<Rightarrow> vnode \<Rightarrow> handler list" where
  "handlers_at t k v = List.map_filter handler_of (props_at t k v)"

text \<open>
  A DOM event at a host element named \<open>t\<close> runs the handler that the element carries
  under the event's prop \<open>k\<close>, if the rendering library listens for that event there. It
  listens for most events, clicks among them, at the root and so for every element. The
  \<open>error\<close> and \<open>load\<close> events do not bubble; for them it attaches a listener only to
  certain elements: for \<open>error\<close> to \<open>img\<close>, \<open>image\<close>, \<open>link\<close>, \<open>source\<close>, \<open>video\<close> and
  \<open>audio\<close>, for \<open>load\<close> to \<open>iframe\<close>, \<open>object\<close>, \<open>embed\<close>, \<open>img\<close>, \<open>image\<close> and \<open>link\<close>.
  An \<open>onError\<close> prop on any other element is never called. (The other events that do
  not bubble are not told apart here; the program has no handler for them.)
\<close>

definition listened :: "string \<Rightarrow> string \<Rightarrow> bool" where
  "listened t k =
     (if k = ''onError'' then t \<in> set [''img'', ''image'', ''link'', ''source'', ''video'', ''audio'']
      else if k = ''onLoad'' then t \<in> set [''iframe'', ''object'', ''embed'', ''img'', ''image'', ''link'']
      else True)"

text \<open>
  The event of prop \<open>k\<close> at the host elements named \<open>t\<close> of the tree on the screen: the
  frame's load error is \<open>(''iframe'', ''onError'')\<close>, a click on the button
  \<open>(''button'', ''onClick'')\<close>. An element that is not on the screen receives nothing.
\<close>

definition dispatch :: "string \<Rightarrow> string \<Rightarrow> vnode \<Rightarrow> 'a world_scheme \<Rightarrow> 'a world_scheme" where
  "dispatch t k v w = (if listened t k then fold run (handlers_at t k v) w else w)"

definition mount :: "component \<Rightarrow> world" where
  "mount c = \<lparr>hook = initialState c, opened = []\<rparr>"

definition step :: "component \<Rightarrow> string \<times> string \<Rightarrow> 'a world_scheme \<Rightarrow> 'a world_scheme" where
  "step c ev w = dispatch (fst ev) (snd ev) (view c (hook w)) w"

section \<open>The embedded-dashboard pages\<close>

text \<open>\<open>src/unnamed/part_000\<close>\<close>

definition NewsBoard :: component where
  "NewsBoard = \<lparr>initialState = False, view = (\<lambda>iframeError.
     let stockNewsUrl = ''https://web-news-iwhdvddvapstytxauebj4u.streamlit.app/?embed=true'';
         handleIframeError = [SetState True];
         openInNewTab = [WindowOpen stockNewsUrl ''_blank'' ''noopener,noreferrer'']
     in
     Tag ''div'' [(''className'', Str ''p-4'')]
       [if \<not> iframeError then
          Tag ''div'' [(''className'', Str ''relative''), (''style'', Css [(''height'', ''600px'')])]
            [Tag ''iframe''
               [(''src'', Str stockNewsUrl),
                (''onError'', Handler handleIframeError),
                (''style'', Css [(''width'', ''100%''), (''height'', ''100%''),
                                 (''border'', ''1px solid #ddd''), (''borderRadius'', ''8px'')]),
                (''sandbox'', Str ''allow-same-origin allow-scripts allow-forms allow-popups'')]
               []]
        else
          Tag ''div'' [(''className'', Str ''text-center p-8 border rounded-lg'')]
            [Tag ''p'' [(''className'', Str ''mb-4'')] [Text ''Unable to embed Stock News directly.''],
             Tag ''button''
               [(''onClick'', Handler openInNewTab),
                (''className'', Str ''px-4 py-2 bg-blue-500 text-white rounded hover:bg-blue-600 transition-colors'')]
               [Text ''Open in New Tab'']]])\<rparr>"

text \<open>\<open>src/unnamed/part_001\<close>\<close>

definition PortfolioOptimization :: component where
  "PortfolioOptimization = \<lparr>initialState = False, view = (\<lambda>iframeError.
     let streamlitUrl = ''https://ieteportfoliooptimisation.streamlit.app/?embed=true'';
         handleIframeError = [SetState True];
         openInNewTab = [WindowOpen streamlitUrl ''_blank'' ''noopener,noreferrer'']
     in
     Tag ''div'' [(''className'', Str ''p-4'')]
       [if \<not> iframeError then
          Tag ''div'' [(''className'', Str ''relative''), (''style'', Css [(''height'', ''600px'')])]
            [Tag ''iframe''
               [(''src'', Str streamlitUrl),
                (''onError'', Handler handleIframeError),
                (''style'', Css [(''width'', ''100%''), (''height'', ''100%''),
                                 (''border'', ''1px solid #ddd''), (''borderRadius'', ''8px'')]),
                (''sandbox'', Str ''allow-same-origin allow-scripts allow-forms allow-popups'')]
               []]
        else
          Tag ''div'' [(''className'', Str ''text-center p-8 border rounded-lg'')]
            [Tag ''p'' [(''className'', Str ''mb-4'')]
               [Text ''Unable to embed the Portfolio Optimizer directly.''],
             Tag ''button''
               [(''onClick'', Handler openInNewTab),
                (''className'', Str ''px-4 py-2 bg-blue-500 text-white rounded hover:bg-blue-600 transition-colors'')]
               [Text ''Open in New Tab'']]])\<rparr>"

text \<open>\<open>src/src/scenes/crossborder/index.jsx\<close>\<close>

definition CrossBorder :: component where
  "CrossBorder = \<lparr>initialState = False, view = (\<lambda>dashboardError.
     let dashboardUrl = ''https://itemcrossbordercomplience.streamlit.app/?embed=true'';
         handleDashboardError = [SetState True];
         openDashboardInNewTab = [WindowOpen dashboardUrl ''_blank'' ''noopener,noreferrer'']
     in
     Tag ''div'' [(''className'', Str ''p-4'')]
       [if \<not> dashboardError then
          Tag ''div'' [(''className'', Str ''relative''), (''style'', Css [(''height'', ''600px'')])]
            [Tag ''iframe''
               [(''src'', Str dashboardUrl),
                (''onError'', Handler handleDashboardError),
                (''style'', Css [(''width'', ''100%''), (''height'', ''100%''),
                                 (''border'', ''1px solid #ddd''), (''borderRadius'', ''8px'')]),
                (''sandbox'', Str ''allow-same-origin allow-scripts allow-forms allow-popups'')]
               []]
        else
          Tag ''div'' [(''className'', Str ''text-center p-8 border rounded-lg'')]
            [Tag ''p'' [(''className'', Str ''mb-4'')]
               [Text ''Unable to embed the GDP Dashboard directly.''],
             Tag ''button''
               [(''onClick'', Handler openDashboardInNewTab),
                (''className'', Str ''px-4 py-2 bg-blue-500 text-white rounded hover:bg-blue-600 transition-colors'')]
               [Text ''Open in New Tab'']]])\<rparr>"

text \<open>
  Modelled from the spec: the GDP dashboard page (\<open>./scenes/gdp\<close>, imported by \<open>App.jsx\<close>
  as \<open>GdpDashboard\<close>) is missing from the repository's files. The spec gives the pattern
  that the four dashboard pages share: an inline frame whose source is one fixed URL,
  with the permissions \<open>allow-same-origin allow-scripts allow-forms allow-popups\<close>; on the
  frame's load-error event local state flips to show a fallback panel with one action,
  which opens the same URL in a new top-level browsing context; the load-error flag
  starts clear. The spec does not give the GDP page's URL, which is a parameter here, nor
  a message, styling or window features, which are left out.
\<close>

definition GdpDashboard :: "string \<Rightarrow> component" where
  "GdpDashboard gdpUrl = \<lparr>initialState = False, view = (\<lambda>loadError.
     if \<not> loadError then
       Tag ''iframe''
         [(''src'', Str gdpUrl),
          (''onError'', Handler [SetState True]),
          (''sandbox'', Str ''allow-same-origin allow-scripts allow-forms allow-popups'')]
         []
     else
       Tag ''div'' []
         [Tag ''button'' [(''onClick'', Handler [WindowOpen gdpUrl ''_blank'' []])] []])\<rparr>"

text \<open>
  The four dashboard pages: three from the repository's files and the GDP page as the
  spec describes it, for any URL of the GDP dashboard.
\<close>

datatype dashboard = StockNews | PortfolioOptimizer | CrossBorderCompliance | GrossDomesticProduct

fun page :: "string \<Rightarrow> dashboard \<Rightarrow> component" where
  "page gdpUrl StockNews = NewsBoard"
| "page gdpUrl PortfolioOptimizer = PortfolioOptimization"
| "page gdpUrl CrossBorderCompliance = CrossBorder"
| "page gdpUrl GrossDomesticProduct = GdpDashboard gdpUrl"

section \<open>Routing and the authentication gates\<close>

text \<open>
  \<open>Routes\<close> and \<open>Route\<close> come from the routing library and \<open>SignedIn\<close> and \<open>SignedOut\<close>
  from the identity provider's library; neither is part of the repository. Their
  behaviour is modelled here as far as \<open>App.jsx\<close> uses it: route paths made of literal
  segments with an optional trailing \<open>*\<close>, no nested routes, no index routes, no
  \<open>caseSensitive\<close> prop.

  Strings are modelled as their UTF-8 bytes.

  A route path is compiled to a regular expression: a trailing \<open>*\<close> and trailing slashes
  are dropped and one leading slash is ensured; this literal must start the pathname,
  letters compared without regard to case. A path without \<open>*\<close> then allows only further
  slashes. The paths \<open>*\<close> and \<open>/*\<close> allow any run of characters that the expression's dot
  matches, which is every character but a line terminator (line feed, carriage return,
  U+2028, U+2029). Any other path ending in \<open>*\<close> allows further slashes only, or a slash
  followed by a non-empty run of such characters.
\<close>

definition lower :: "char \<Rightarrow> char" where
  "lower c = (case map_of (zip ''ABCDEFGHIJKLMNOPQRSTUVWXYZ'' ''abcdefghijklmnopqrstuvwxyz'') c of
                None \<Rightarrow> c | Some d \<Rightarrow> d)"

definition is_slash :: "char \<Rightarrow> bool" where
  "is_slash c = (c = CHR ''/'')"

definition strip_trailing_slashes :: "string \<Rightarrow> string" where
  "strip_trailing_slashes s = rev (dropWhile is_slash (rev s))"

definition ends_with_star :: "string \<Rightarrow> bool" where
  "ends_with_star path = (path \<noteq> [] \<and> last path = CHR ''*'')"

definition pattern_base :: "string \<Rightarrow> string" where
  "pattern_base path =
     CHR ''/'' # dropWhile is_slash
       (strip_trailing_slashes (if ends_with_star path then butlast path else path))"

fun has_line_terminator :: "string \<Rightarrow> bool" where
  "has_line_terminator [] = False"
| "has_line_terminator (c # cs) =
     (c = CHR 0x0A \<or> c = CHR 0x0D \<or>
      (c = CHR 0xE2 \<and> (take 2 cs = [CHR 0x80, CHR 0xA8] \<or> take 2 cs = [CHR 0x80, CHR 0xA9])) \<or>
      has_line_terminator cs)"

definition dots :: "string \<Rightarrow> bool" where
  "dots s = (\<not> has_line_terminator s)"

definition matchPath :: "string \<Rightarrow> string \<Rightarrow> bool" where
  "matchPath path pathname =
     (let base = pattern_base path;
          rest = drop (length base) pathname
      in map lower (take (length base) pathname) = map lower base \<and>
         (if ends_with_star path then
            (if path = ''*'' \<or> path = ''/*'' then dots rest
             else list_all is_slash rest \<or>
                  (rest \<noteq> [] \<and> hd rest = CHR ''/'' \<and> tl rest \<noteq> [] \<and> dots (tl rest)))
          else list_all is_slash rest))"

text \<open>
  Routes are ranked by a score of their full path (the parent's path, here empty, joined
  with the route's own): its number of segments, a penalty for a \<open>*\<close> segment, one point
  for an empty segment and ten for a literal one. Routes of equal score keep the order in
  which they are written. The first route in rank order that matches is rendered; none
  matching, nothing is.

  Before matching, the pathname (an empty one counting as \<open>/\<close>) is percent-decoded
  segment by segment, a slash that a segment decodes to being written \<open>%2F\<close> again. A
  percent sign must be followed by two hexadecimal digits, and the octets of a character
  outside ASCII must form well-formed UTF-8, each of them written as an escape; if any
  segment fails to decode, the pathname is matched as it stands.
\<close>

fun split_on :: "char \<Rightarrow> string \<Rightarrow> string list" where
  "split_on d [] = [[]]"
| "split_on d (c # cs) =
     (if c = d then [] # split_on d cs
      else (case split_on d cs of [] \<Rightarrow> [[c]] | s # ss \<Rightarrow> (c # s) # ss))"

fun collapse_slashes :: "string \<Rightarrow> string" where
  "collapse_slashes (a # b # cs) =
     (if is_slash a \<and> is_slash b then collapse_slashes (b # cs) else a # collapse_slashes (b # cs))"
| "collapse_slashes cs = cs"

definition joinPaths :: "string \<Rightarrow> string \<Rightarrow> string" where
  "joinPaths parentPath relativePath = collapse_slashes (parentPath @ ''/'' @ relativePath)"

definition staticSegmentValue :: int where "staticSegmentValue = 10"
definition emptySegmentValue :: int where "emptySegmentValue = 1"
definition splatPenalty :: int where "splatPenalty = -2"

definition computeScore :: "string \<Rightarrow> int" where
  "computeScore path =
     (let segments = split_on (CHR ''/'') path;
          initialScore = int (length segments) + (if ''*'' \<in> set segments then splatPenalty else 0)
      in foldl (\<lambda>score segment. score + (if segment = [] then emptySegmentValue else staticSegmentValue))
           initialScore (filter (\<lambda>s. s \<noteq> ''*'') segments))"

type_synonym route = "string \<times> vnode"

definition Route :: "string \<Rightarrow> vnode \<Rightarrow> route" where
  "Route path element = (path, element)"

definition rankRouteBranches :: "route list \<Rightarrow> route list" where
  "rankRouteBranches routes = sort_key (\<lambda>r. - computeScore (joinPaths [] (fst r))) routes"

definition hex_digit :: "char \<Rightarrow> nat option" where
  "hex_digit c =
     map_of (zip ''0123456789abcdefABCDEF''
       [0, 1, 2, 3, 4, 5, 6, 7, 8, 9, 10, 11, 12, 13, 14, 15, 10, 11, 12, 13, 14, 15]) c"

datatype token = Plain char | Octet nat

text \<open>The escapes of a string; \<open>None\<close> when a percent sign lacks its two digits.\<close>

fun escapes :: "string \<Rightarrow> token list option" where
  "escapes [] = Some []"
| "escapes (c # cs) =
     (if c = CHR ''%'' then
        (case cs of
           h # l # rest \<Rightarrow>
             (case (hex_digit h, hex_digit l) of
                (Some a, Some b) \<Rightarrow> map_option (Cons (Octet (16 * a + b))) (escapes rest)
              | _ \<Rightarrow> None)
         | _ \<Rightarrow> None)
      else map_option (Cons (Plain c)) (escapes cs))"

definition continuation :: "nat \<Rightarrow> bool" where
  "continuation b = (0x80 \<le> b \<and> b \<le> 0xBF)"

text \<open>Well-formed UTF-8 of two, three and four octets.\<close>

fun well_formed :: "nat list \<Rightarrow> bool" where
  "well_formed [b0, b1] = (0xC2 \<le> b0 \<and> b0 \<le> 0xDF \<and> continuation b1)"
| "well_formed [b0, b1, b2] =
     (((b0 = 0xE0 \<and> 0xA0 \<le> b1 \<and> b1 \<le> 0xBF) \<or>
       (0xE1 \<le> b0 \<and> b0 \<le> 0xEC \<and> continuation b1) \<or>
       (b0 = 0xED \<and> 0x80 \<le> b1 \<and> b1 \<le> 0x9F) \<or>
       (0xEE \<le> b0 \<and> b0 \<le> 0xEF \<and> continuation b1)) \<and>
      continuation b2)"
| "well_formed [b0, b1, b2, b3] =
     (((b0 = 0xF0 \<and> 0x90 \<le> b1 \<and> b1 \<le> 0xBF) \<or>
       (0xF1 \<le> b0 \<and> b0 \<le> 0xF3 \<and> continuation b1) \<or>
       (b0 = 0xF4 \<and> 0x80 \<le> b1 \<and> b1 \<le> 0x8F)) \<and>
      continuation b2 \<and> continuation b3)"
| "well_formed bs = False"

text \<open>
  The decoded string: an ASCII octet by itself, a lead octet with as many continuation
  escapes as its leading one bits announce.
\<close>

fun assemble :: "token list \<Rightarrow> string option" where
  "assemble [] = Some []"
| "assemble (Plain c # ts) = map_option (Cons c) (assemble ts)"
| "assemble (Octet b # ts) =
     (if b < 0x80 then map_option (Cons (char_of b)) (assemble ts)
      else if b < 0xC0 \<or> 0xF8 \<le> b then None
      else if b < 0xE0 then
        (case ts of
           Octet b1 # ts' \<Rightarrow>
             if well_formed [b, b1]
             then map_option (append (map char_of [b, b1])) (assemble ts') else None
         | _ \<Rightarrow> None)
      else if b < 0xF0 then
        (case ts of
           Octet b1 # Octet b2 # ts' \<Rightarrow>
             if well_formed [b, b1, b2]
             then map_option (append (map char_of [b, b1, b2])) (assemble ts') else None
         | _ \<Rightarrow> None)
      else
        (case ts of
           Octet b1 # Octet b2 # Octet b3 # ts' \<Rightarrow>
             if well_formed [b, b1, b2, b3]
             then map_option (append (map char_of [b, b1, b2, b3])) (assemble ts') else None
         | _ \<Rightarrow> None))"

definition decodeURIComponent :: "string \<Rightarrow> string option" where
  "decodeURIComponent s = (case escapes s of None \<Rightarrow> None | Some ts \<Rightarrow> assemble ts)"

fun join :: "string \<Rightarrow> string list \<Rightarrow> string" where
  "join sep [] = []"
| "join sep [x] = x"
| "join sep (x # y # ys) = x @ sep @ join sep (y # ys)"

definition encode_slashes :: "string \<Rightarrow> string" where
  "encode_slashes s = concat (map (\<lambda>c. if c = CHR ''/'' then ''%2F'' else [c]) s)"

definition decodePath :: "string \<Rightarrow> string" where
  "decodePath v =
     (case those (map decodeURIComponent (split_on (CHR ''/'') v)) of
        None \<Rightarrow> v
      | Some segments \<Rightarrow> join ''/'' (map encode_slashes segments))"

definition matchRoutes :: "route list \<Rightarrow> string \<Rightarrow> route option" where
  "matchRoutes routes pathname =
     (let decoded = decodePath (if pathname = [] then ''/'' else pathname)
      in List.find (\<lambda>r. matchPath (fst r) decoded) (rankRouteBranches routes))"

definition Routes :: "route list \<Rightarrow> string \<Rightarrow> vnode list" where
  "Routes routes pathname = (case matchRoutes routes pathname of None \<Rightarrow> [] | Some r \<Rightarrow> [snd r])"

text \<open>
  The identity provider reports a signed-in user, no user, or nothing yet; \<open>SignedIn\<close>
  renders its children in the first case only and \<open>SignedOut\<close> in the second only.
\<close>

datatype auth = AuthLoading | UserSignedIn | UserSignedOut

definition SignedIn :: "auth \<Rightarrow> vnode list \<Rightarrow> vnode list" where
  "SignedIn a children = (if a = UserSignedIn then children else [])"

definition SignedOut :: "auth \<Rightarrow> vnode list \<Rightarrow> vnode list" where
  "SignedOut a children = (if a = UserSignedOut then children else [])"

section \<open>The application shell\<close>

text \<open>\<open>src/src/App.jsx\<close>, lines 53 to 71: the routes of the signed-in view.\<close>

definition signedInRoutes :: "route list" where
  "signedInRoutes =
     [Route ''/'' (Component ''Dashboard'' [] []),
      Route ''/contacts'' (Component ''Contacts'' [] []),
      Route ''/invoices'' (Component ''Invoices'' [] []),
      Route ''/portfolio'' (Component ''PortfolioOptimization'' [] []),
      Route ''/mutualfunds'' (Component ''MutualTear'' [] []),
      Route ''/gdp'' (Component ''GdpDashboard'' [] []),
      Route ''/crossborder'' (Component ''CrossBorder'' [] []),
      Route ''/form'' (Component ''Form'' [] []),
      Route ''/bar'' (Component ''Bar'' [] []),
      Route ''/pie'' (Component ''Chatbot'' [] []),
      Route ''/line'' (Component ''Line'' [] []),
      Route ''/faq'' (Component ''FAQ'' [] []),
      Route ''/calendar'' (Component ''Calendar'' [] [])]"

text \<open>\<open>src/src/App.jsx\<close>, lines 77 to 95: the routes of the signed-out view.\<close>

definition signedOutRoutes :: "route list" where
  "signedOutRoutes =
     [Route ''/sign-in/*'' (Component ''SignIn'' [] []),
      Route ''/sign-up/*''
        (Component ''SignUp''
           [(''path'', Str ''/sign-up''),
            (''signUpFields'', Arr
               [Obj [(''name'', Str ''name''), (''type'', Str ''text''), (''label'', Str ''Full Name'')],
                Obj [(''name'', Str ''email_address''), (''type'', Str ''email''), (''label'', Str ''Email'')],
                Obj [(''name'', Str ''password''), (''type'', Str ''password''), (''label'', Str ''Password'')],
                Obj [(''name'', Str ''age''), (''type'', Str ''number''), (''label'', Str ''Age'')],
                Obj [(''name'', Str ''gender''), (''type'', Str ''select''), (''label'', Str ''Gender''),
                     (''options'', Arr [Str ''Male'', Str ''Female'', Str ''Other''])]])]
           []),
      Route ''*'' (Component ''RedirectToSignIn'' [] [])]"

text \<open>
  \<open>App\<close>, for the provider's report, the current pathname and the value of the
  \<open>isSidebar\<close> cell. \<open>theme\<close>, \<open>colorMode\<close>, \<open>signOut\<close> and \<open>setIsSidebar\<close> are bound by hooks
  defined outside the repository's files.
\<close>

definition App :: "auth \<Rightarrow> string \<Rightarrow> bool \<Rightarrow> vnode" where
  "App a pathname isSidebar =
     Component ''ColorModeContext.Provider'' [(''value'', Opaque ''colorMode'')]
       [Component ''ThemeProvider'' [(''theme'', Opaque ''theme'')]
          [Component ''CssBaseline'' [] [],
           Tag ''div'' [(''className'', Str ''app'')]
             (SignedIn a
                [Component ''Sidebar'' [(''isSidebar'', Flag isSidebar)] [],
                 Tag ''main'' [(''className'', Str ''content'')]
                   ([Component ''Topbar'' [(''setIsSidebar'', Opaque ''setIsSidebar'')] [],
                     Tag ''div''
                       [(''style'', Css [(''display'', ''flex''), (''justifyContent'', ''flex-end''),
                                         (''padding'', ''10px'')])]
                       [Component ''UserButton'' [] [],
                        Component ''Button''
                          [(''onClick'', Opaque ''signOut''), (''variant'', Str ''contained''),
                           (''color'', Str ''secondary''), (''style'', Css [(''marginLeft'', ''10px'')])]
                          [Text ''Sign Out'']]]
                    @ Routes signedInRoutes pathname)]
              @ SignedOut a
                [Tag ''div''
                   [(''style'', Css [(''display'', ''flex''), (''justifyContent'', ''center''),
                                     (''alignItems'', ''center''), (''height'', ''100vh'')])]
                   (Routes signedOutRoutes pathname)])]]"

text \<open>\<open>src/src/scenes/line/index.jsx\<close>. The component has no state and no props.\<close>

definition Line :: vnode where
  "Line =
     Tag ''div'' [(''className'', Str ''p-8 bg-gray-900 min-h-screen'')]
       [Component ''Header'' [(''title'', Str ''About Us'')] [],
        Tag ''div'' [(''className'', Str ''text-gray-100 mt-8 space-y-6'')]
          [Tag ''h1'' [(''className'', Str ''text-4xl font-bold text-blue-400'')] [Text ''Welcome to FINITY''],
           Tag ''p'' [(''className'', Str ''text-lg leading-7'')]
             [Text ''At FINITY, we believe in '',
              Tag ''strong'' [] [Text ([CHR 0x22] @ ''Finances Unified'' @ [CHR 0x22])],
              Text ''. Our mission is simple yet profound: to provide you with a seamless, all-in-one platform that not only manages but also elevates your investment journey.''],
           Tag ''p'' [(''className'', Str ''text-lg leading-7'')]
             [Text ''Managing finances can be complex and overwhelming. That's why we've designed a platform that simplifies this process, giving you a comprehensive view of your investments and offering in-depth insights across a diverse range of asset classes, including Stocks, Mutual Funds, Bonds, and precious metals like Gold.''],
           Tag ''h2'' [(''className'', Str ''text-2xl font-semibold text-blue-300'')] [Text ''Our Services''],
           Tag ''p'' [(''className'', Str ''text-lg leading-7'')]
             [Text ''Our suite of services is tailored to meet the needs of every investor, from novices to seasoned professionals. We pride ourselves on our cutting-edge portfolio rebalancing services, our sentiment-based stock simulator that helps you gauge the market mood, and our personalized chatbot designed to quench your financial curiosities. Our platform is not just a tool but a companion on your financial journey.''],
           Tag ''h2'' [(''className'', Str ''text-2xl font-semibold text-blue-300'')] [Text ''Meet Our Team''],
           Tag ''p'' [(''className'', Str ''text-lg leading-7'')]
             [Text ''Behind FINITY's innovative platform is a team of passionate, dedicated, and incredibly talented individuals:''],
           Tag ''div'' [(''className'', Str ''space-y-4'')]
             [Tag ''div'' []
                [Tag ''strong'' [(''className'', Str ''text-blue-300'')] [Text ''Karthik Nambiar:''],
                 Tag ''p'' []
                   [Text ''A wizard in Python Development and Deep Learning, Karthik brings over a year of capital market experience to the table. His expertise and innovative approach to financial technologies drive the core development of our platform, ensuring that FINITY remains at the forefront of financial management solutions.'']],
              Tag ''div'' []
                [Tag ''strong'' [(''className'', Str ''text-blue-300'')] [Text ''Kartikeya Pandey:''],
                 Tag ''p'' []
                   [Text ''The backbone of our platform, Kartikeya's proficiency in backend development with Node and frontend magic with React, creates a seamless, intuitive, and dynamic user experience. Her innovative approach to development ensures that FINITY is not just functional but also a joy to use.'']],
              Tag ''div'' []
                [Tag ''strong'' [(''className'', Str ''text-blue-300'')] [Text ''Garv Trivedi:''],
                 Tag ''p'' []
                   [Text ''A talented web developer with a strong focus on creating responsive and intuitive user interfaces. Garv's expertise in modern web development frameworks ensures a seamless and engaging experience for our users. His dedication to front-end excellence plays a pivotal role in making FINITY's platform both accessible and enjoyable to navigate.'']],
              Tag ''div'' []
                [Tag ''strong'' [(''className'', Str ''text-blue-300'')] [Text ''Aman Mehra:''],
                 Tag ''p'' []
                   [Text ''Not just our team's aesthetic charm, Aman's presence brings an unparalleled level of charisma and energy to FINITY. His devastatingly handsome looks are matched only by his commitment to making financial management both engaging and enjoyable for everyone.'']]],
           Tag ''p'' [(''className'', Str ''text-lg leading-7'')]
             [Text ''Together, we are '',
              Tag ''strong'' [(''className'', Str ''text-blue-400'')] [Text ''FINITY''],
              Text ('' '' @ [CHR 0xC3, CHR 0xA2, CHR 0xE2, CHR 0x82, CHR 0xAC, CHR 0xE2, CHR 0x80, CHR 0x9C] @ '' a team united by a shared vision of demystifying finance and making it accessible to all. We're not just about numbers and algorithms; we're about empowering you to make informed financial decisions with confidence and clarity. Join us on this journey, and let's redefine the future of finance, together.'')],
           Tag ''h2'' [(''className'', Str ''text-2xl font-bold text-blue-400'')] [Text ''Welcome to FINITY'']]]"

section \<open>From the shell to the screen\<close>

text \<open>
  An element of a component is replaced by the tree that the component returns. The
  identifiers of \<open>App.jsx\<close> whose component is among the repository's files are
  \<open>PortfolioOptimization\<close> (the default export of \<open>src/unnamed/part_001\<close>), \<open>CrossBorder\<close> and
  \<open>Line\<close>; the other elements stay as they are. \<open>b\<close> is the value of the routed page's
  \<open>useState\<close> cell.
\<close>

definition resolve :: "string \<Rightarrow> (bool \<Rightarrow> vnode) option" where
  "resolve name =
     (if name = ''PortfolioOptimization'' then Some (view PortfolioOptimization)
      else if name = ''CrossBorder'' then Some (view CrossBorder)
      else if name = ''Line'' then Some (\<lambda>b. Line)
      else None)"

fun expand :: "bool \<Rightarrow> vnode \<Rightarrow> vnode" where
  "expand b (Component n ps cs) =
     (case resolve n of None \<Rightarrow> Component n ps (map (expand b) cs) | Some f \<Rightarrow> f b)"
| "expand b (Tag n ps cs) = Tag n ps (map (expand b) cs)"
| "expand b (Text s) = Text s"

text \<open>The identifiers of the component elements of a tree, in document order.\<close>

fun components_in :: "vnode \<Rightarrow> string list" where
  "components_in (Component n ps cs) = n # concat (map components_in cs)"
| "components_in (Tag n ps cs) = concat (map components_in cs)"
| "components_in (Text s) = []"


text \<open>The values of prop \<open>k\<close> on the elements of component \<open>n\<close>, in document order.\<close>

fun component_props :: "string \<Rightarrow> string \<Rightarrow> vnode \<Rightarrow> prop_value list" where
  "component_props n k (Component m ps cs) =
     (if m = n then (case map_of ps k of None \<Rightarrow> [] | Some v \<Rightarrow> [v]) else [])
     @ concat (map (component_props n k) cs)"
| "component_props n k (Tag m ps cs) = concat (map (component_props n k) cs)"
| "component_props n k (Text s) = []"

text \<open>Every event handler that a tree carries, under whatever prop.\<close>

fun handlers_in :: "vnode \<Rightarrow> handler list" where
  "handlers_in (Tag n ps cs) = List.map_filter handler_of (map snd ps) @ concat (map handlers_in cs)"
| "handlers_in (Component n ps cs) = List.map_filter handler_of (map snd ps) @ concat (map handlers_in cs)"
| "handlers_in (Text s) = []"

section \<open>Pathnames\<close>





section \<open>Properties of the embedded-dashboard pages\<close>

lemmas dashboard_pages = NewsBoard_def PortfolioOptimization_def CrossBorder_def GdpDashboard_def

lemmas event_delivery = dispatch_def listened_def handlers_at_def run_def

lemma step_hook: "hook (step (page u d) ev w) = hook w"
  by (cases d; cases ev; cases "hook w")
     (auto simp add: dashboard_pages step_def event_delivery split: if_splits)

lemma steps_hook: "hook (foldl (\<lambda>w ev. step (page u d) ev w) w evs) = hook w"
  by (induction evs arbitrary: w) (auto simp: step_hook)


text \<open>
  C2. On every dashboard page the click on the fallback button opens exactly one browsing
  context, with target \<open>_blank\<close>, and its URL is the string that the page passes to its
  inline frame as \<open>src\<close>.
\<close>

theorem fallback_opens_frame_url:
  "\<exists>url.
     props_at ''iframe'' ''src'' (view (page gdpUrl d) False) = [Str url] \<and>
     dispatch ''button'' ''onClick'' (view (page gdpUrl d) True) w =
       w\<lparr>opened := opened w @
           [(url, ''_blank'',
             case d of GrossDomesticProduct \<Rightarrow> [] | _ \<Rightarrow> ''noopener,noreferrer'')]\<rparr>"
  by (cases d) (simp_all add: dashboard_pages event_delivery)

text \<open>
  C7. On every dashboard page the inline frame, when it is on the screen, has as \<open>src\<close>
  one string literal of the page (for the GDP page the URL that the spec leaves open) and
  as \<open>sandbox\<close> the string \<open>allow-same-origin allow-scripts allow-forms allow-popups\<close>, the
  same on all four pages.
\<close>

theorem frame_src_and_sandbox_fixed:
  "props_at ''iframe'' ''src'' (view (page gdpUrl d) False) =
     [Str (case d of
        StockNews \<Rightarrow> ''https://web-news-iwhdvddvapstytxauebj4u.streamlit.app/?embed=true''
      | PortfolioOptimizer \<Rightarrow> ''https://ieteportfoliooptimisation.streamlit.app/?embed=true''
      | CrossBorderCompliance \<Rightarrow> ''https://itemcrossbordercomplience.streamlit.app/?embed=true''
      | GrossDomesticProduct \<Rightarrow> gdpUrl)] \<and>
   props_at ''iframe'' ''sandbox'' (view (page gdpUrl d) False) =
     [Str ''allow-same-origin allow-scripts allow-forms allow-popups'']"
  by (cases d) (simp_all add: dashboard_pages)

text \<open>
  C3 does not hold of the code. A dashboard page is mounted with the flag clear, and its
  frame carries the handler that sets the flag under \<open>onError\<close>; but no listener for the
  \<open>error\<close> event is attached to an \<open>iframe\<close>, so no event changes the flag: after any
  sequence of events the page is still in the state it was mounted in.
\<close>

theorem load_error_never_reaches_handler:
  "hook (mount (page gdpUrl d)) = False \<and>
   handlers_at ''iframe'' ''onError'' (view (page gdpUrl d) False) = [[SetState True]] \<and>
   listened ''iframe'' ''onError'' = False \<and>
   hook (step (page gdpUrl d) ev w) = hook w \<and>
   hook (foldl (\<lambda>w ev. step (page gdpUrl d) ev w) (mount (page gdpUrl d)) evs) = False"
proof -
  have m: "hook (mount (page gdpUrl d)) = False"
    by (cases d) (simp_all add: dashboard_pages mount_def)
  have h: "handlers_at ''iframe'' ''onError'' (view (page gdpUrl d) False) = [[SetState True]]"
    by (cases d) (simp_all add: dashboard_pages handlers_at_def)
  have l: "listened ''iframe'' ''onError'' = False" by (simp add: listened_def)
  from m h l show ?thesis by (simp add: step_hook steps_hook)
qed

text \<open>
  C8 does not hold of the code. The handler that the frame carries under \<open>onError\<close> has
  one statement, the call that sets the flag to true, but the frame's load-error event
  does not run it: the state after the event is the state before it, the flag included.
\<close>

theorem load_error_changes_nothing:
  "handlers_at ''iframe'' ''onError'' (view (page gdpUrl d) False) = [[SetState True]] \<and>
   dispatch ''iframe'' ''onError'' (view (page gdpUrl d) False) w = w"
  by (cases d) (simp_all add: dashboard_pages event_delivery)

text \<open>
  C9. With the flag set, the cross-border compliance page shows the message
  \<open>Unable to embed the GDP Dashboard directly.\<close>, while its button opens the
  cross-border compliance URL.
\<close>

theorem crossborder_fallback_names_gdp:
  "texts_at ''p'' (view CrossBorder True) = [''Unable to embed the GDP Dashboard directly.''] \<and>
   dispatch ''button'' ''onClick'' (view CrossBorder True) w =
     w\<lparr>opened := opened w @ [(''https://itemcrossbordercomplience.streamlit.app/?embed=true'',
                               ''_blank'', ''noopener,noreferrer'')]\<rparr>"
  by (simp add: CrossBorder_def event_delivery)

section \<open>Properties of the routes\<close>

subsection \<open>Decoding a pathname\<close>

lemma lower_is_slash [simp]: "lower c = CHR ''/'' \<longleftrightarrow> c = CHR ''/''"
  unfolding lower_def by (simp split: if_splits)

lemma lower_of_slash [simp]: "lower (CHR ''/'') = CHR ''/''"
  by (simp add: lower_def)





lemma join_two_not_Nil: "sep \<noteq> [] \<Longrightarrow> join sep (x # y # ys) \<noteq> []"
  by simp







subsection \<open>Matching a route path without \<open>*\<close>\<close>












subsection \<open>Matching a route path with \<open>*\<close>\<close>

lemma dots_Cons_slash [simp]: "dots (CHR ''/'' # s) = dots s"
  by (simp add: dots_def)













subsection \<open>What the routes render\<close>

lemma routes_at:
  "Routes signedInRoutes ''/portfolio'' = [Component ''PortfolioOptimization'' [] []]"
  "Routes signedInRoutes ''/pie'' = [Component ''Chatbot'' [] []]"
  "Routes signedInRoutes ''/line'' = [Component ''Line'' [] []]"
  by code_simp+

text \<open>
  C4 holds of the code in its first half only. For a signed-in user the path
  \<open>/portfolio\<close> routes to the portfolio-optimization page, and the freshly mounted screen
  holds one inline frame whose \<open>src\<close> is the page's URL literal. The frame carries the
  handler that sets the flag, but the frame's load-error event does not run it: state
  and screen stay as they were, with the frame and without the message and the button.
\<close>

theorem portfolio_load_error_leaves_frame:
 "Routes signedInRoutes ''/portfolio'' = [Component ''PortfolioOptimization'' [] []] \<and>
  (let w0 = mount PortfolioOptimization;
       screen0 = expand (hook w0) (App UserSignedIn ''/portfolio'' isSidebar);
       w1 = dispatch ''iframe'' ''onError'' screen0 w0;
       screen1 = expand (hook w1) (App UserSignedIn ''/portfolio'' isSidebar)
   in props_at ''iframe'' ''src'' screen0 =
        [Str ''https://ieteportfoliooptimisation.streamlit.app/?embed=true''] \<and>
      count_tag ''iframe'' screen0 = 1 \<and> count_tag ''button'' screen0 = 0 \<and>
      handlers_at ''iframe'' ''onError'' screen0 = [[SetState True]] \<and>
      w1 = w0 \<and> screen1 = screen0 \<and>
      count_tag ''iframe'' screen1 = 1 \<and>
      texts_at ''p'' screen1 = [] \<and>
      texts_at ''button'' screen1 = [])"
  unfolding App_def routes_at
  by (simp add: Let_def SignedIn_def SignedOut_def resolve_def mount_def PortfolioOptimization_def
        event_delivery)






text \<open>
  C10. For a signed-in user the path \<open>/pie\<close> renders the \<open>Chatbot\<close> component and the path
  \<open>/line\<close> the \<open>Line\<close> component, whatever the state of the shell. \<open>Line\<close> is a fixed tree:
  a header titled \<open>About Us\<close> over prose, with no state and no event handler.
\<close>

theorem pie_is_chatbot_line_is_about_us:
  "Routes signedInRoutes ''/pie'' = [Component ''Chatbot'' [] []] \<and>
   Routes signedInRoutes ''/line'' = [Component ''Line'' [] []] \<and>
   components_in (App UserSignedIn ''/pie'' isSidebar) =
     [''ColorModeContext.Provider'', ''ThemeProvider'', ''CssBaseline'', ''Sidebar'', ''Topbar'',
      ''UserButton'', ''Button'', ''Chatbot''] \<and>
   components_in (App UserSignedIn ''/line'' isSidebar) =
     [''ColorModeContext.Provider'', ''ThemeProvider'', ''CssBaseline'', ''Sidebar'', ''Topbar'',
      ''UserButton'', ''Button'', ''Line''] \<and>
   expand b (Component ''Line'' [] []) = Line \<and>
   component_props ''Header'' ''title'' Line = [Str ''About Us''] \<and>
   texts_at ''h1'' Line = [''Welcome to FINITY''] \<and>
   handlers_in Line = []"
proof -
  note r = routes_at(2,3)
  have app: "components_in (App UserSignedIn ''/pie'' isSidebar) =
     [''ColorModeContext.Provider'', ''ThemeProvider'', ''CssBaseline'', ''Sidebar'', ''Topbar'',
      ''UserButton'', ''Button'', ''Chatbot'']"
     "components_in (App UserSignedIn ''/line'' isSidebar) =
     [''ColorModeContext.Provider'', ''ThemeProvider'', ''CssBaseline'', ''Sidebar'', ''Topbar'',
      ''UserButton'', ''Button'', ''Line'']"
    unfolding App_def r by (simp_all add: SignedIn_def SignedOut_def)
  have line: "expand b (Component ''Line'' [] []) = Line"
    "component_props ''Header'' ''title'' Line = [Str ''About Us'']"
    "texts_at ''h1'' Line = [''Welcome to FINITY'']"
    "handlers_in Line = []"
    by (simp_all add: resolve_def Line_def)
  from r app line show ?thesis by (simp only: simp_thms)
qed

end
